theory Spec2Isabelle
  imports Main "HOL-Library.AList"
begin

section \<open>Go types and values as package reflect sees them\<close>

text \<open>
  The code of \<^verbatim>\<open>compose/field_mapping.go\<close> works on \<^verbatim>\<open>reflect.Type\<close> and
  \<^verbatim>\<open>reflect.Value\<close>. The fragment of Go modelled here has the predeclared types bool,
  int and string, the unnamed composite types (slices, maps, pointers), interface types
  (given by their method names; the empty list is \<^verbatim>\<open>any\<close>) and defined struct types
  (given by name, the names of their methods and their fields: name, exported or not,
  type). Embedded fields and their promotion are outside the fragment.
\<close>

datatype kind = KInvalid | KBool | KInt | KString | KInterface | KMap | KPtr | KSlice | KStruct

datatype gtype =
    TBool
  | TInt
  | TString
  | TSlice gtype
  | TMap gtype gtype
  | TPtr gtype
  | TInterface "string list"
  | TStruct string "string list" "(string \<times> bool \<times> gtype) list"

text \<open>
  A value of type \<^verbatim>\<open>any\<close>: the nil interface, or a value that carries its dynamic type.
  A nil map and a nil pointer are typed (\<open>None\<close> as content). A pointer holds its
  pointee, so that a write through the pointer is read off the returned value; a struct
  holds each field declaration with the field's current value.
\<close>

datatype gval =
    VNil
  | VBool bool
  | VInt int
  | VString string
  | VSlice gtype "gval list"
  | VMap gtype gtype "(gval \<times> gval) list option"
  | VPtr gtype "gval option"
  | VStruct string "string list" "((string \<times> bool \<times> gtype) \<times> gval) list"

fun kindOf :: "gtype \<Rightarrow> kind" where
  "kindOf TBool = KBool"
| "kindOf TInt = KInt"
| "kindOf TString = KString"
| "kindOf (TSlice _) = KSlice"
| "kindOf (TMap _ _) = KMap"
| "kindOf (TPtr _) = KPtr"
| "kindOf (TInterface _) = KInterface"
| "kindOf (TStruct _ _ _) = KStruct"

text \<open>\<^verbatim>\<open>reflect.TypeOf\<close>: the dynamic type, nil (\<open>None\<close>) for the nil interface.\<close>

fun typeOf :: "gval \<Rightarrow> gtype option" where
  "typeOf VNil = None"
| "typeOf (VBool _) = Some TBool"
| "typeOf (VInt _) = Some TInt"
| "typeOf (VString _) = Some TString"
| "typeOf (VSlice t _) = Some (TSlice t)"
| "typeOf (VMap k e _) = Some (TMap k e)"
| "typeOf (VPtr t _) = Some (TPtr t)"
| "typeOf (VStruct n ms fvs) = Some (TStruct n ms (map fst fvs))"

fun methodSet :: "gtype \<Rightarrow> string list" where
  "methodSet (TInterface ms) = ms"
| "methodSet (TStruct _ ms _) = ms"
| "methodSet (TPtr (TStruct _ ms _)) = ms"
| "methodSet _ = []"

definition implements :: "gtype \<Rightarrow> gtype \<Rightarrow> bool" where
  "implements v t = (case t of TInterface ms \<Rightarrow> list_all (\<lambda>m. m \<in> set (methodSet v)) ms | _ \<Rightarrow> False)"

text \<open>
  \<^verbatim>\<open>Type.AssignableTo\<close> on the fragment: identical types, or an interface the type
  implements. (No two different types of the fragment share an underlying type with one
  of them unnamed, so Go's third rule adds nothing here.)
\<close>

definition assignableTo :: "gtype \<Rightarrow> gtype \<Rightarrow> bool" where
  "assignableTo v t = (v = t \<or> implements v t)"

text \<open>The type assertion \<^verbatim>\<open>x.(T)\<close> in its one-result form: \<open>False\<close> is the panic.\<close>

definition assertType :: "gval \<Rightarrow> gtype \<Rightarrow> bool" where
  "assertType x t = (case typeOf x of None \<Rightarrow> False
     | Some d \<Rightarrow> (if kindOf t = KInterface then implements d t else d = t))"

subsection \<open>reflect.Value\<close>

text \<open>
  A \<^verbatim>\<open>reflect.Value\<close> is the zero Value or a static type, the content and the read-only
  flag a Value gets when it was reached through an unexported field. A Value of an
  interface type holds the dynamic value (or \<open>VNil\<close>).
\<close>

datatype rvalue = RZero | RVal gtype gval bool

definition ValueOf :: "gval \<Rightarrow> rvalue" where
  "ValueOf x = (case typeOf x of None \<Rightarrow> RZero | Some t \<Rightarrow> RVal t x False)"

fun Kind :: "rvalue \<Rightarrow> kind" where
  "Kind RZero = KInvalid"
| "Kind (RVal t _ _) = kindOf t"

fun IsValid :: "rvalue \<Rightarrow> bool" where
  "IsValid RZero = False"
| "IsValid (RVal _ _ _) = True"

text \<open>\<^verbatim>\<open>Value.Type\<close> panics on the zero Value: \<open>None\<close>.\<close>

fun TypeV :: "rvalue \<Rightarrow> gtype option" where
  "TypeV RZero = None"
| "TypeV (RVal t _ _) = Some t"

text \<open>\<^verbatim>\<open>Value.Elem\<close> of a pointer: the zero Value for a nil pointer.\<close>

fun Elem :: "rvalue \<Rightarrow> rvalue" where
  "Elem (RVal (TPtr t) (VPtr _ (Some v)) ro) = RVal t v ro"
| "Elem _ = RZero"

fun CanInterface :: "rvalue \<Rightarrow> bool" where
  "CanInterface RZero = False"
| "CanInterface (RVal _ _ ro) = (\<not> ro)"

text \<open>
  \<^verbatim>\<open>Value.CanSet\<close>: addressable and not read-only. Every Value the code asks is reached
  from \<^verbatim>\<open>reflect.ValueOf(&dest).Elem()\<close>, which is addressable.
\<close>

fun CanSet :: "rvalue \<Rightarrow> bool" where
  "CanSet RZero = False"
| "CanSet (RVal _ _ ro) = (\<not> ro)"

fun Interface :: "rvalue \<Rightarrow> gval" where
  "Interface RZero = VNil"
| "Interface (RVal _ v _) = v"

fun lookupField :: "string \<Rightarrow> ((string \<times> bool \<times> gtype) \<times> gval) list \<Rightarrow> ((string \<times> bool \<times> gtype) \<times> gval) option" where
  "lookupField name [] = None"
| "lookupField name (((n, ex, t), v) # fvs) =
     (if n = name then Some ((n, ex, t), v) else lookupField name fvs)"

text \<open>
  \<^verbatim>\<open>Value.FieldByName\<close> panics unless the Value's kind is Struct (\<open>None\<close>); it returns
  the zero Value when the struct has no such field.
\<close>

fun FieldByName :: "rvalue \<Rightarrow> string \<Rightarrow> rvalue option" where
  "FieldByName (RVal (TStruct _ _ _) (VStruct _ _ fvs) ro) name =
     Some (case lookupField name fvs of None \<Rightarrow> RZero
           | Some ((n, ex, t), v) \<Rightarrow> RVal t v (ro \<or> \<not> ex))"
| "FieldByName _ _ = None"

text \<open>\<^verbatim>\<open>Value.MapIndex\<close>: the zero Value when the key is absent or the map is nil.\<close>

fun MapIndex :: "rvalue \<Rightarrow> gval \<Rightarrow> rvalue" where
  "MapIndex (RVal (TMap _ e) (VMap _ _ (Some es)) ro) k =
     (case map_of es k of None \<Rightarrow> RZero | Some v \<Rightarrow> RVal e v ro)"
| "MapIndex _ _ = RZero"

fun keyType :: "gtype \<Rightarrow> gtype" where
  "keyType (TMap k _) = k"
| "keyType t = t"

fun elemType :: "gtype \<Rightarrow> gtype" where
  "elemType (TMap _ e) = e"
| "elemType (TPtr t) = t"
| "elemType (TSlice t) = t"
| "elemType t = t"

section \<open>Errors and outcomes\<close>

text \<open>One constructor for each error message of the two source files.\<close>

datatype err =
    FromFieldNotFound string
  | FromFieldNotExported string
  | FromMapKeyType
  | FromMapKeyNotFound string
  | FromUnsupportedShape gtype
  | ToEntireMismatch gtype gtype
  | ToNotStruct
  | ToFieldNotFound string
  | ToFieldNotExported string
  | ToFieldMismatch string gtype gtype
  | ToNotMap
  | ToMapKeyType
  | ToMapValueMismatch string gtype gtype
  | TypeNotStringKeyMap gtype
  | TypeNotStruct gtype
  | TypeNoField string
  | TypeUnexportedField string
  | FromAllToAll
  | SuccessorShape gtype
  | PredecessorShape gtype
  | StaticCheckFailed string err
  | MustNotAssignable string gtype gtype
  | RuntimeCheckFailed gtype gtype
  | MergeFailed string
  | NodeNoInput string
  | NodeToEntireInput string
  | NodeSameField string string
  | EndNoInput
  | GraphError string

text \<open>
  What a Go function of result type \<^verbatim>\<open>(T, error)\<close> does: it returns a value and an
  error (\<open>None\<close> is nil), or it panics.
\<close>

datatype 'a outcome = Returns 'a "err option" | Panics

section \<open>Field extraction: takeOne\<close>

text \<open>
  \<^verbatim>\<open>checkAndExtractFromField\<close> (field_mapping.go:188): \<^verbatim>\<open>input.FieldByName\<close> comes
  first and panics when the kind of \<open>input\<close> is not Struct.
\<close>

definition checkAndExtractFromField :: "string \<Rightarrow> rvalue \<Rightarrow> rvalue outcome" where
  "checkAndExtractFromField fromField input =
     (case FieldByName input fromField of
        None \<Rightarrow> Panics
      | Some f \<Rightarrow>
          if \<not> IsValid f then Returns RZero (Some (FromFieldNotFound fromField))
          else if \<not> CanInterface f then Returns RZero (Some (FromFieldNotExported fromField))
          else Returns f None)"

text \<open>\<^verbatim>\<open>checkAndExtractFromMapKey\<close> (field_mapping.go:201), called on a Value of kind Map.\<close>

definition checkAndExtractFromMapKey :: "string \<Rightarrow> rvalue \<Rightarrow> rvalue outcome" where
  "checkAndExtractFromMapKey fromMapKey input =
     (case TypeV input of
        None \<Rightarrow> Panics
      | Some t \<Rightarrow>
          if \<not> assignableTo TString (keyType t) then Returns RZero (Some FromMapKeyType)
          else let v = MapIndex input (VString fromMapKey) in
            if \<not> IsValid v then Returns RZero (Some (FromMapKeyNotFound fromMapKey))
            else Returns v None)"

text \<open>
  The value \<^verbatim>\<open>reflect.Value{}\<close> boxed as \<^verbatim>\<open>any\<close>, which the default branch of
  \<^verbatim>\<open>takeOne\<close> returns beside its error.
\<close>

definition reflectValueZero :: gval where
  "reflectValueZero = VStruct ''reflect.Value'' [] []"

text \<open>
  The tail of \<^verbatim>\<open>takeOne\<close> (field_mapping.go:332): \<^verbatim>\<open>nil, err\<close> on an error, else
  \<^verbatim>\<open>f.Interface()\<close>.
\<close>

fun takeResult :: "rvalue outcome \<Rightarrow> gval outcome" where
  "takeResult Panics = Panics"
| "takeResult (Returns f (Some e)) = Returns VNil (Some e)"
| "takeResult (Returns f None) = Returns (Interface f) None"

text \<open>
  \<^verbatim>\<open>takeOne\<close> (field_mapping.go:312). The case Ptr takes \<^verbatim>\<open>Elem()\<close> once and falls
  through to the case Struct, whatever the pointer points to. The default branch formats
  \<^verbatim>\<open>inputValue.Type()\<close> into its message, which panics on the zero Value.
\<close>

definition takeOne :: "gval \<Rightarrow> string \<Rightarrow> gval outcome" where
  "takeOne input fromF =
     (if length fromF = 0 then Returns input None
      else let inputValue = ValueOf input in
        case Kind inputValue of
          KMap \<Rightarrow> takeResult (checkAndExtractFromMapKey fromF inputValue)
        | KPtr \<Rightarrow> takeResult (checkAndExtractFromField fromF (Elem inputValue))
        | KStruct \<Rightarrow> takeResult (checkAndExtractFromField fromF inputValue)
        | _ \<Rightarrow> (case TypeV inputValue of
                  None \<Rightarrow> Panics
                | Some t \<Rightarrow> Returns reflectValueZero (Some (FromUnsupportedShape t))))"

section \<open>Field injection: assignOne\<close>

fun rsize :: "rvalue \<Rightarrow> nat" where
  "rsize RZero = 0"
| "rsize (RVal _ v _) = Suc (size v)"

text \<open>The loop \<^verbatim>\<open>for output.Kind() == reflect.Ptr { output = output.Elem() }\<close>.\<close>

function derefAll :: "rvalue \<Rightarrow> rvalue" where
  "derefAll output = (if Kind output = KPtr then derefAll (Elem output) else output)"
  by pat_completeness auto
termination
proof (relation "measure rsize")
  show "wf (measure rsize)" by simp
next
  fix r :: rvalue
  assume "Kind r = KPtr"
  then show "(Elem r, r) \<in> measure rsize"
    by (induction r rule: Elem.induct) auto
qed

declare derefAll.simps [simp del]

text \<open>
  \<^verbatim>\<open>checkAndExtractToField\<close> (field_mapping.go:249). The message of the first error
  formats \<^verbatim>\<open>output.Type()\<close>, which panics when a nil pointer left the zero Value;
  \<^verbatim>\<open>toSet.Type()\<close> panics when the value to set is the nil interface. The result
  \<open>Returns field None\<close> is the field to be set.
\<close>

definition checkAndExtractToField :: "string \<Rightarrow> rvalue \<Rightarrow> rvalue \<Rightarrow> rvalue outcome" where
  "checkAndExtractToField toField output0 toSet =
     (let output = derefAll output0 in
      if Kind output \<noteq> KStruct then
        (case TypeV output of None \<Rightarrow> Panics | Some _ \<Rightarrow> Returns RZero (Some ToNotStruct))
      else case FieldByName output toField of
        None \<Rightarrow> Panics
      | Some field \<Rightarrow>
          if \<not> IsValid field then Returns RZero (Some (ToFieldNotFound toField))
          else if \<not> CanSet field then Returns RZero (Some (ToFieldNotExported toField))
          else (case (TypeV toSet, TypeV field) of
                  (Some ts, Some ft) \<Rightarrow>
                    if \<not> assignableTo ts ft then Returns RZero (Some (ToFieldMismatch toField ts ft))
                    else Returns field None
                | _ \<Rightarrow> Panics))"

text \<open>
  \<^verbatim>\<open>checkAndExtractToMapKey\<close> (field_mapping.go:274); the result \<open>Returns k None\<close> is
  the key \<^verbatim>\<open>reflect.ValueOf(toMapKey)\<close>.
\<close>

definition checkAndExtractToMapKey :: "string \<Rightarrow> rvalue \<Rightarrow> rvalue \<Rightarrow> rvalue outcome" where
  "checkAndExtractToMapKey toMapKey output toSet =
     (if Kind output \<noteq> KMap then
        (case TypeV output of None \<Rightarrow> Panics | Some _ \<Rightarrow> Returns RZero (Some ToNotMap))
      else case TypeV output of
        None \<Rightarrow> Panics
      | Some ot \<Rightarrow>
          if \<not> assignableTo TString (keyType ot) then Returns RZero (Some ToMapKeyType)
          else (case TypeV toSet of
                  None \<Rightarrow> Panics
                | Some ts \<Rightarrow>
                    if \<not> assignableTo ts (elemType ot)
                    then Returns RZero (Some (ToMapValueMismatch toMapKey ts (elemType ot)))
                    else Returns (ValueOf (VString toMapKey)) None))"

text \<open>
  The effect of \<^verbatim>\<open>field.Set(toSet)\<close> as \<^verbatim>\<open>destValue.Interface()\<close> shows it afterwards:
  the field of the struct the pointers lead to holds the new value.
\<close>

fun setFirst :: "string \<Rightarrow> gval \<Rightarrow> ((string \<times> bool \<times> gtype) \<times> gval) list \<Rightarrow> ((string \<times> bool \<times> gtype) \<times> gval) list" where
  "setFirst name x [] = []"
| "setFirst name x (((n, ex, t), v) # fvs) =
     (if n = name then ((n, ex, t), x) # fvs else ((n, ex, t), v) # setFirst name x fvs)"

fun setField :: "gval \<Rightarrow> string \<Rightarrow> gval \<Rightarrow> gval" where
  "setField (VPtr t (Some v)) name x = VPtr t (Some (setField v name x))"
| "setField (VStruct n ms fvs) name x = VStruct n ms (setFirst name x fvs)"
| "setField d name x = d"

text \<open>\<^verbatim>\<open>destValue.SetMapIndex(key, toSet)\<close> panics on a nil map.\<close>

fun SetMapIndex :: "gval \<Rightarrow> gval \<Rightarrow> gval \<Rightarrow> gval option" where
  "SetMapIndex (VMap k e (Some es)) key x = Some (VMap k e (Some (AList.update key x es)))"
| "SetMapIndex _ _ _ = None"

text \<open>
  \<^verbatim>\<open>assignOne[T]\<close> (field_mapping.go:148). \<open>T\<close> is the type parameter, \<open>dest\<close> a
  value of it. \<^verbatim>\<open>reflect.ValueOf(dest)\<close> is never addressable, so \<open>destValue\<close> is
  \<^verbatim>\<open>reflect.ValueOf(&dest).Elem()\<close>: a Value of static type \<open>T\<close>.
\<close>

definition assignOne :: "gtype \<Rightarrow> gval \<Rightarrow> gval \<Rightarrow> string \<Rightarrow> gval outcome" where
  "assignOne T dest taken toF =
     (let destValue = RVal T dest False in
      if length toF = 0 then
        (let toSet = ValueOf taken in
         case TypeV toSet of
           None \<Rightarrow> Panics
         | Some ts \<Rightarrow>
             if \<not> assignableTo ts T then Returns dest (Some (ToEntireMismatch ts T))
             else Returns taken None)
      else let toSet = ValueOf taken in
        if Kind destValue = KMap then
          (case checkAndExtractToMapKey toF destValue toSet of
             Panics \<Rightarrow> Panics
           | Returns _ (Some e) \<Rightarrow> Returns dest (Some e)
           | Returns key None \<Rightarrow>
               (case SetMapIndex dest (Interface key) taken of
                  None \<Rightarrow> Panics
                | Some d \<Rightarrow> Returns d None))
        else
          (case checkAndExtractToField toF destValue toSet of
             Panics \<Rightarrow> Panics
           | Returns _ (Some e) \<Rightarrow> Returns dest (Some e)
           | Returns field None \<Rightarrow> Returns (setField dest toF taken) None))"

section \<open>Static validation: validateFieldMapping\<close>

record FieldMapping =
  fm_fromNodeKey :: string
  fm_from :: string
  fm_to :: string

text \<open>\<^verbatim>\<open>FieldMapping.String\<close> (field_mapping.go:41), the description in the messages.\<close>

definition FieldMapping_String :: "FieldMapping \<Rightarrow> string" where
  "FieldMapping_String m =
     ''from '' @ (if fm_from m \<noteq> [] then fm_from m @ ''(field) of '' else [])
       @ fm_fromNodeKey m
       @ (if fm_to m \<noteq> [] then '' to '' @ fm_to m @ ''(field)'' else [])
       @ ''; ''"

fun isFromAll :: "FieldMapping list \<Rightarrow> bool" where
  "isFromAll [] = False"
| "isFromAll (mapping # mappings) = (if length (fm_from mapping) = 0 then True else isFromAll mappings)"

fun isToAll :: "FieldMapping list \<Rightarrow> bool" where
  "isToAll [] = False"
| "isToAll (mapping # mappings) = (if length (fm_to mapping) = 0 then True else isToAll mappings)"

text \<open>
  \<^verbatim>\<open>validateStructOrMap\<close> (field_mapping.go:357): the case Ptr falls through to the
  case Struct and returns true, whatever the pointer points to.
\<close>

definition validateStructOrMap :: "gtype \<Rightarrow> bool" where
  "validateStructOrMap t =
     (case kindOf t of KMap \<Rightarrow> True | KPtr \<Rightarrow> True | KStruct \<Rightarrow> True | _ \<Rightarrow> False)"

text \<open>The loop \<^verbatim>\<open>for typ.Kind() == reflect.Ptr { typ = typ.Elem() }\<close> on types.\<close>

fun derefType :: "gtype \<Rightarrow> gtype" where
  "derefType (TPtr t) = derefType t"
| "derefType t = t"

text \<open>\<^verbatim>\<open>Type.FieldByName\<close>: whether the field is exported, and its type.\<close>

fun typeFieldByName :: "string \<Rightarrow> (string \<times> bool \<times> gtype) list \<Rightarrow> (bool \<times> gtype) option" where
  "typeFieldByName name [] = None"
| "typeFieldByName name ((n, ex, t) # fs) =
     (if n = name then Some (ex, t) else typeFieldByName name fs)"

fun structFields :: "gtype \<Rightarrow> (string \<times> bool \<times> gtype) list" where
  "structFields (TStruct _ _ fs) = fs"
| "structFields _ = []"

text \<open>\<^verbatim>\<open>checkAndExtractFieldType\<close> (field_mapping.go:214).\<close>

definition checkAndExtractFieldType :: "string \<Rightarrow> gtype \<Rightarrow> err + gtype" where
  "checkAndExtractFieldType field typ0 =
     (if length field = 0 then Inr typ0
      else if kindOf typ0 = KMap then
        (if keyType typ0 \<noteq> TString then Inl (TypeNotStringKeyMap typ0)
         else Inr (elemType typ0))
      else let typ = derefType typ0 in
        if kindOf typ \<noteq> KStruct then Inl (TypeNotStruct typ)
        else case typeFieldByName field (structFields typ) of
          None \<Rightarrow> Inl (TypeNoField field)
        | Some (ex, ft) \<Rightarrow>
            if \<not> ex then Inl (TypeUnexportedField field) else Inr ft)"

text \<open>
  The verdicts of \<^verbatim>\<open>checkAssignable\<close>. The function is not in the two source files;
  \<^verbatim>\<open>validateFieldMapping\<close> takes it as the parameter \<open>ca\<close>.
\<close>

datatype assignableType = assignableTypeMustNot | assignableTypeMust | assignableTypeMay

text \<open>
  Modelled from the spec: \<^verbatim>\<open>checkAssignable\<close>, the Type Assignability Checker of
  section 4.3, used where a concrete classifier is needed. Always when the source type is
  statically assignable to the destination type; Conditional when the source is an
  interface type, so that only the dynamic type of each runtime value decides, and a
  value of the destination type can be held in it; Never otherwise.
\<close>

definition checkAssignable :: "gtype \<Rightarrow> gtype \<Rightarrow> assignableType" where
  "checkAssignable input arg =
     (if assignableTo input arg then assignableTypeMust
      else if kindOf input = KInterface \<and> implements arg input then assignableTypeMay
      else assignableTypeMustNot)"

text \<open>
  The variables of \<^verbatim>\<open>validateFieldMapping\<close> that its closures refer to:
  \<^verbatim>\<open>successorFieldType\<close>, declared once before the loop (field_mapping.go:386) and
  assigned in every iteration, and the map \<^verbatim>\<open>fieldCheckers\<close>. Every entry of the map
  is the same closure (field_mapping.go:404), which reads the variable
  \<^verbatim>\<open>successorFieldType\<close> when it is called, so the map is given by its keys.
\<close>

record checkerFrame =
  successorFieldType :: "gtype option"
  fieldCheckers :: "string list"

text \<open>The loop over the mappings (field_mapping.go:390-418).\<close>

fun checkMappings :: "(gtype \<Rightarrow> gtype \<Rightarrow> assignableType) \<Rightarrow> gtype \<Rightarrow> gtype \<Rightarrow> FieldMapping list \<Rightarrow> checkerFrame \<Rightarrow> err + checkerFrame" where
  "checkMappings ca predecessorType successorType [] fr = Inr fr"
| "checkMappings ca predecessorType successorType (mapping # mappings) fr =
     (case checkAndExtractFieldType (fm_from mapping) predecessorType of
        Inl e \<Rightarrow> Inl (StaticCheckFailed (FieldMapping_String mapping) e)
      | Inr pft \<Rightarrow>
          (case checkAndExtractFieldType (fm_to mapping) successorType of
             Inl e \<Rightarrow> Inl (StaticCheckFailed (FieldMapping_String mapping) e)
           | Inr sft \<Rightarrow>
               (let at = ca pft sft in
                if at = assignableTypeMustNot
                then Inl (MustNotAssignable (FieldMapping_String mapping) pft sft)
                else checkMappings ca predecessorType successorType mappings
                       \<lparr>successorFieldType = Some sft,
                        fieldCheckers =
                          (if at = assignableTypeMay
                           then List.insert (fm_to mapping) (fieldCheckers fr)
                           else fieldCheckers fr)\<rparr>)))"

text \<open>
  The compiled handler pair of field_mapping.go:437: its closure \<^verbatim>\<open>checker\<close> holds the
  map \<^verbatim>\<open>fieldCheckers\<close>, whose closures read \<^verbatim>\<open>successorFieldType\<close> as the loop left
  it.
\<close>

type_synonym handlerPair = checkerFrame

text \<open>
  \<^verbatim>\<open>validateFieldMapping\<close> (field_mapping.go:371): \<open>Inl e\<close> is \<^verbatim>\<open>nil, err\<close>,
  \<open>Inr None\<close> is \<^verbatim>\<open>nil, nil\<close> and \<open>Inr (Some hp)\<close> a handler pair.
\<close>

definition validateFieldMapping :: "(gtype \<Rightarrow> gtype \<Rightarrow> assignableType) \<Rightarrow> gtype \<Rightarrow> gtype \<Rightarrow> FieldMapping list \<Rightarrow> err + handlerPair option" where
  "validateFieldMapping ca predecessorType successorType mappings =
     (if isFromAll mappings \<and> isToAll mappings then Inl FromAllToAll
      else if \<not> isToAll mappings \<and> \<not> validateStructOrMap successorType
        then Inl (SuccessorShape successorType)
      else if \<not> isFromAll mappings \<and> \<not> validateStructOrMap predecessorType
        then Inl (PredecessorShape predecessorType)
      else case checkMappings ca predecessorType successorType mappings
                  \<lparr>successorFieldType = None, fieldCheckers = []\<rparr> of
        Inl e \<Rightarrow> Inl e
      | Inr fr \<Rightarrow> if length (fieldCheckers fr) = 0 then Inr None else Inr (Some fr))"

text \<open>
  The closure \<^verbatim>\<open>checker\<close> of field_mapping.go:404, called with the value \<open>a\<close> when the
  variable \<^verbatim>\<open>successorFieldType\<close> holds \<open>sft\<close>. \<^verbatim>\<open>reflect.TypeOf(a)\<close> is nil for the
  nil interface, and the method call on it panics.
\<close>

definition fieldChecker :: "gtype option \<Rightarrow> gval \<Rightarrow> gval outcome" where
  "fieldChecker sft a =
     (case (typeOf a, sft) of
        (Some trueInType, Some t) \<Rightarrow>
          if \<not> assignableTo trueInType t
          then Returns VNil (Some (RuntimeCheckFailed trueInType t))
          else Returns a None
      | _ \<Rightarrow> Panics)"

text \<open>
  The loop of the handler's \<^verbatim>\<open>invoke\<close> (field_mapping.go:427) over the guarded field
  names, on the keyed map \<open>mValue\<close> (an association list with one entry for each key).
  On an error it returns \<^verbatim>\<open>nil, err\<close>: \<open>None\<close> as the value.
\<close>

fun invokeCheckers :: "gtype option \<Rightarrow> string list \<Rightarrow> (string \<times> gval) list \<Rightarrow> (string \<times> gval) list option outcome" where
  "invokeCheckers sft [] mValue = Returns (Some mValue) None"
| "invokeCheckers sft (k # ks) mValue =
     (case map_of mValue k of
        None \<Rightarrow> invokeCheckers sft ks mValue
      | Some x \<Rightarrow>
          (case fieldChecker sft x of
             Panics \<Rightarrow> Panics
           | Returns _ (Some e) \<Rightarrow> Returns None (Some e)
           | Returns y None \<Rightarrow> invokeCheckers sft ks (AList.update k y mValue)))"

definition invoke :: "handlerPair \<Rightarrow> (string \<times> gval) list \<Rightarrow> (string \<times> gval) list option outcome" where
  "invoke hp mValue = invokeCheckers (successorFieldType hp) (fieldCheckers hp) mValue"

section \<open>Value conversion: convertTo\<close>

text \<open>
  The keyed map \<^verbatim>\<open>map[string]any\<close> is an association list with one entry for each
  key, in the order the \<^verbatim>\<open>range\<close> loop happens to visit it (Go leaves that order
  open). The first loop of \<^verbatim>\<open>convertTo\<close> (field_mapping.go:126) appends every value
  to the list of its field name in \<^verbatim>\<open>field2Values\<close>.
\<close>

fun groupValues :: "(string \<times> gval) list \<Rightarrow> (string \<times> gval list) list \<Rightarrow> (string \<times> gval list) list" where
  "groupValues [] field2Values = field2Values"
| "groupValues ((toF, taken) # mappings) field2Values =
     groupValues mappings
       (AList.update toF ((case map_of field2Values toF of None \<Rightarrow> [] | Some vs \<Rightarrow> vs) @ [taken])
          field2Values)"

text \<open>
  The second loop (field_mapping.go:130). \<open>mergeValues\<close> is not in the two source files
  and is the parameter \<open>mv\<close>. An error of \<^verbatim>\<open>assignOne\<close> is turned into a panic.
\<close>

fun assignValues :: "(gval list \<Rightarrow> err + gval) \<Rightarrow> gtype \<Rightarrow> gval \<Rightarrow> (string \<times> gval list) list \<Rightarrow> gval outcome" where
  "assignValues mv T t [] = Returns t None"
| "assignValues mv T t ((fieldName, vals) # rest) =
     (case vals of
        [] \<Rightarrow> Panics
      | v0 # _ \<Rightarrow>
          (case (if length vals > 1 then mv vals else Inr v0) of
             Inl e \<Rightarrow> Returns t (Some (MergeFailed fieldName))
           | Inr taken \<Rightarrow>
               (case assignOne T t taken fieldName of
                  Returns t' None \<Rightarrow> assignValues mv T t' rest
                | _ \<Rightarrow> Panics)))"

text \<open>
  \<^verbatim>\<open>convertTo[T]\<close> (field_mapping.go:113). \<^verbatim>\<open>generic.NewInstance[T]()\<close> is not in
  the two source files and is the parameter \<open>newInstance\<close>. The shortcut asks only
  whether the key \<^verbatim>\<open>""\<close> is present; the assertion \<^verbatim>\<open>mappings[""].(T)\<close> panics when
  it fails.
\<close>

definition convertTo :: "(gval list \<Rightarrow> err + gval) \<Rightarrow> (gtype \<Rightarrow> gval) \<Rightarrow> gtype \<Rightarrow> (string \<times> gval) list \<Rightarrow> gval outcome" where
  "convertTo mv newInstance T mappings =
     (case map_of mappings [] of
        Some x \<Rightarrow> if assertType x T then Returns x None else Panics
      | None \<Rightarrow> assignValues mv T (newInstance T) (groupValues mappings []))"

section \<open>Workflow edge assembly: addEdgesWithMapping\<close>












section \<open>The legality rules of the workflow, as predicates\<close>



section \<open>Concrete types, values and workflows\<close>

text \<open>The zero value of a type: nil for maps, pointers and interfaces.\<close>

fun zeroValue :: "gtype \<Rightarrow> gval" where
  "zeroValue TBool = VBool False"
| "zeroValue TInt = VInt 0"
| "zeroValue TString = VString []"
| "zeroValue (TSlice t) = VSlice t []"
| "zeroValue (TMap k e) = VMap k e None"
| "zeroValue (TPtr t) = VPtr t None"
| "zeroValue (TInterface _) = VNil"
| "zeroValue (TStruct n ms fs) = VStruct n ms (map (\<lambda>f. (f, zeroValue (snd (snd f)))) fs)"

text \<open>
  Modelled from the spec: \<^verbatim>\<open>generic.NewInstance\<close>, which section 4.5 describes as
  instantiating a zero-valued successor input of the declared type, allocating a fresh,
  unshared instance: an empty map for a map type, a pointer to a zero value for a pointer
  type, the zero value otherwise.
\<close>

definition NewInstance :: "gtype \<Rightarrow> gval" where
  "NewInstance T =
     (case T of
        TMap k e \<Rightarrow> VMap k e (Some [])
      | TPtr t \<Rightarrow> VPtr t (Some (zeroValue t))
      | _ \<Rightarrow> zeroValue T)"

text \<open>
  Modelled from the spec: a \<^verbatim>\<open>mergeValues\<close> with no merge policy for any type, which
  section 4.5 requires to fail when more than one value is present.
\<close>

definition noMergePolicy :: "gval list \<Rightarrow> err + gval" where
  "noMergePolicy vals = Inl (MergeFailed [])"

text \<open>
  \<^verbatim>\<open>type P struct { A any; B int }\<close>, \<^verbatim>\<open>type S struct { X string; Y int }\<close> and
  \<^verbatim>\<open>type Box struct { F any }\<close>, with values of them.
\<close>

definition exP :: gtype where
  "exP = TStruct ''P'' [] [(''A'', True, TInterface []), (''B'', True, TInt)]"

definition exS :: gtype where
  "exS = TStruct ''S'' [] [(''X'', True, TString), (''Y'', True, TInt)]"

definition exSval :: "string \<Rightarrow> int \<Rightarrow> gval" where
  "exSval x y = VStruct ''S'' [] [((''X'', True, TString), VString x), ((''Y'', True, TInt), VInt y)]"

definition exBoxT :: gtype where
  "exBoxT = TStruct ''Box'' [] [(''F'', True, TInterface [])]"

definition exBox :: "gval \<Rightarrow> gval" where
  "exBox x = VStruct ''Box'' [] [((''F'', True, TInterface []), x)]"

text \<open>The mappings \<^verbatim>\<open>MapFields("A", "X")\<close>, \<^verbatim>\<open>MapFields("B", "Y")\<close>,
  \<^verbatim>\<open>FromField("B")\<close> and \<^verbatim>\<open>ToField("X")\<close>.\<close>

definition exAX :: FieldMapping where
  "exAX = \<lparr>fm_fromNodeKey = ''n'', fm_from = ''A'', fm_to = ''X''\<rparr>"

definition exBY :: FieldMapping where
  "exBY = \<lparr>fm_fromNodeKey = ''n'', fm_from = ''B'', fm_to = ''Y''\<rparr>"

definition exFromB :: FieldMapping where
  "exFromB = \<lparr>fm_fromNodeKey = ''n'', fm_from = ''B'', fm_to = []\<rparr>"

definition exToX :: FieldMapping where
  "exToX = \<lparr>fm_fromNodeKey = ''n'', fm_from = [], fm_to = ''X''\<rparr>"








text \<open>
  The handler pair that validation returns for the mappings A to X and B to Y from
  \<^verbatim>\<open>P\<close> to \<^verbatim>\<open>S\<close>: one guard, for \<^verbatim>\<open>X\<close>, and the variable
  \<^verbatim>\<open>successorFieldType\<close> as the loop left it.
\<close>

definition exHandler :: handlerPair where
  "exHandler = \<lparr>successorFieldType = Some TInt, fieldCheckers = [''X'']\<rparr>"

text \<open>A \<^verbatim>\<open>mergeValues\<close> that keeps the first of the values (nil for none).\<close>

definition Inr_hd :: "gval list \<Rightarrow> err + gval" where
  "Inr_hd vals = (case vals of [] \<Rightarrow> Inr VNil | v # _ \<Rightarrow> Inr v)"

text \<open>
  A struct value is well typed when every field holds a value whose dynamic type is
  assignable to the field's declared type; only a field of an interface type holds nil.
\<close>

definition fieldsConform :: "((string \<times> bool \<times> gtype) \<times> gval) list \<Rightarrow> bool" where
  "fieldsConform fvs =
     list_all (\<lambda>((n, ex, t), v).
        case typeOf v of None \<Rightarrow> kindOf t = KInterface | Some tv \<Rightarrow> assignableTo tv t) fvs"

section \<open>Evaluation\<close>

lemmas extract_defs =
  takeOne_def ValueOf_def checkAndExtractFromField_def checkAndExtractFromMapKey_def
  reflectValueZero_def

lemmas inject_defs =
  assignOne_def ValueOf_def checkAndExtractToField_def checkAndExtractToMapKey_def
  derefAll.simps assignableTo_def implements_def

lemmas validate_defs =
  validateFieldMapping_def validateStructOrMap_def checkAndExtractFieldType_def
  checkAssignable_def assignableTo_def implements_def FieldMapping_String_def

lemmas example_defs =
  exP_def exS_def exSval_def exBoxT_def exBox_def exAX_def exBY_def exFromB_def exToX_def

section \<open>Field injection\<close>

text \<open>
  C8 (injection atomicity): whenever \<^verbatim>\<open>assignOne\<close> returns an error, the destination it
  returns is the destination it was given, with everything its pointers lead to: every
  error is returned before \<^verbatim>\<open>Set\<close> or \<^verbatim>\<open>SetMapIndex\<close> is reached, so no field has
  been set and no map entry written.
\<close>

theorem assignOne_error_keeps_dest:
  "assignOne T dest taken toF = Returns d (Some e) \<Longrightarrow> d = dest"
  by (auto simp: assignOne_def Let_def split: if_splits option.splits outcome.splits)

text \<open>
  The theorem at an \<^verbatim>\<open>S{X: "a", Y: 0}\<close> and the string \<^verbatim>\<open>"b"\<close> for the int field
  \<^verbatim>\<open>Y\<close>: the error is the type mismatch and the struct comes back as it was.
\<close>

theorem assignOne_error_keeps_dest_witness:
  "assignOne exS (exSval ''a'' 0) (VString ''b'') ''Y''
     = Returns (exSval ''a'' 0) (Some (ToFieldMismatch ''Y'' TString TInt))
   \<and> exSval ''a'' 0 = exSval ''a'' 0"
proof -
  have h: "assignOne exS (exSval ''a'' 0) (VString ''b'') ''Y''
     = Returns (exSval ''a'' 0) (Some (ToFieldMismatch ''Y'' TString TInt))"
    by (simp add: inject_defs example_defs)
  from assignOne_error_keeps_dest [OF h] h show ?thesis by simp
qed

section \<open>Static validation\<close>

lemma isFromAll_iff: "isFromAll ms \<longleftrightarrow> (\<exists>m\<in>set ms. fm_from m = [])"
  by (induction ms) auto

lemma isToAll_iff: "isToAll ms \<longleftrightarrow> (\<exists>m\<in>set ms. fm_to m = [])"
  by (induction ms) auto

text \<open>
  C5 (degenerate mapping): a mapping set with a descriptor whose \<open>from\<close> is empty and a
  descriptor, the same or another, whose \<open>to\<close> is empty is rejected with the error
  \<^verbatim>\<open>from all fields to all, use common edge instead\<close>. The rejection comes before any
  field type is resolved or classified: it holds for every predecessor type, successor
  type and classifier, also where resolution would fail.
\<close>

theorem validateFieldMapping_degenerate:
  assumes "\<exists>m\<in>set mappings. fm_from m = []"
    and "\<exists>m\<in>set mappings. fm_to m = []"
  shows "validateFieldMapping ca predecessorType successorType mappings = Inl FromAllToAll"
  using assms by (simp add: validateFieldMapping_def isFromAll_iff isToAll_iff)

text \<open>
  The theorem at \<^verbatim>\<open>ToField("X")\<close> with \<^verbatim>\<open>FromField("B")\<close>, between two int types
  that have no fields at all.
\<close>

theorem validateFieldMapping_degenerate_witness:
  "(\<exists>m\<in>set [exToX, exFromB]. fm_from m = [])
   \<and> (\<exists>m\<in>set [exToX, exFromB]. fm_to m = [])
   \<and> validateFieldMapping checkAssignable TInt TInt [exToX, exFromB] = Inl FromAllToAll"
proof -
  have h1: "\<exists>m\<in>set [exToX, exFromB]. fm_from m = []" by (simp add: exToX_def)
  have h2: "\<exists>m\<in>set [exToX, exFromB]. fm_to m = []" by (simp add: exFromB_def)
  from validateFieldMapping_degenerate [OF h1 h2, of checkAssignable TInt TInt] h1 h2
  show ?thesis by blast
qed





lemma checkMappings_all_must:
  assumes "\<forall>m\<in>set ms. \<exists>pf sf. checkAndExtractFieldType (fm_from m) p = Inr pf
             \<and> checkAndExtractFieldType (fm_to m) s = Inr sf \<and> ca pf sf = assignableTypeMust"
  shows "\<exists>fr'. checkMappings ca p s ms fr = Inr fr' \<and> fieldCheckers fr' = fieldCheckers fr"
  using assms
proof (induction ms arbitrary: fr)
  case Nil
  then show ?case by simp
next
  case (Cons m ms)
  from Cons.prems obtain pf sf where
    r: "checkAndExtractFieldType (fm_from m) p = Inr pf"
       "checkAndExtractFieldType (fm_to m) s = Inr sf"
       "ca pf sf = assignableTypeMust"
    by auto
  let ?fr = "\<lparr>successorFieldType = Some sf, fieldCheckers = fieldCheckers fr\<rparr>"
  from Cons.prems have "\<forall>m\<in>set ms. \<exists>pf sf. checkAndExtractFieldType (fm_from m) p = Inr pf
      \<and> checkAndExtractFieldType (fm_to m) s = Inr sf \<and> ca pf sf = assignableTypeMust"
    by simp
  from Cons.IH [OF this, of ?fr] obtain fr' where
    "checkMappings ca p s ms ?fr = Inr fr'" "fieldCheckers fr' = fieldCheckers ?fr"
    by blast
  with r show ?case by simp
qed

text \<open>
  C3, as the code has it: for a mapping set that passes the three legality checks (it
  does not map from all to all; it has an empty \<open>to\<close> or the successor's type is a map,
  pointer or struct; it has an empty \<open>from\<close> or the predecessor's type is one) and whose
  descriptors all resolve to a pair of field types that the classifier finds always
  assignable, \<^verbatim>\<open>validateFieldMapping\<close> succeeds and returns no handler pair at all
  (\<^verbatim>\<open>nil, nil\<close>): no guard was produced, so the edge needs no handler.
\<close>

theorem validateFieldMapping_all_always_nil:
  assumes "\<not> (isFromAll mappings \<and> isToAll mappings)"
    and "isToAll mappings \<or> validateStructOrMap successorType"
    and "isFromAll mappings \<or> validateStructOrMap predecessorType"
    and "\<forall>m\<in>set mappings. \<exists>pf sf.
           checkAndExtractFieldType (fm_from m) predecessorType = Inr pf
           \<and> checkAndExtractFieldType (fm_to m) successorType = Inr sf
           \<and> ca pf sf = assignableTypeMust"
  shows "validateFieldMapping ca predecessorType successorType mappings = Inr None"
  using assms(1-3)
    checkMappings_all_must [OF assms(4), of "\<lparr>successorFieldType = None, fieldCheckers = []\<rparr>"]
  by (auto simp: validateFieldMapping_def)

text \<open>
  The theorem at \<^verbatim>\<open>MapFields("B", "Y")\<close> from \<^verbatim>\<open>P\<close> to \<^verbatim>\<open>S\<close>, an int field into
  an int field.
\<close>

theorem validateFieldMapping_all_always_nil_witness:
  "\<not> (isFromAll [exBY] \<and> isToAll [exBY])
   \<and> validateStructOrMap exS \<and> validateStructOrMap exP
   \<and> checkAndExtractFieldType (fm_from exBY) exP = Inr TInt
   \<and> checkAndExtractFieldType (fm_to exBY) exS = Inr TInt
   \<and> checkAssignable TInt TInt = assignableTypeMust
   \<and> validateFieldMapping checkAssignable exP exS [exBY] = Inr None"
proof -
  have h1: "\<not> (isFromAll [exBY] \<and> isToAll [exBY])" by (simp add: exBY_def)
  have h2: "validateStructOrMap exS" by (simp add: validateStructOrMap_def exS_def)
  have h3: "validateStructOrMap exP" by (simp add: validateStructOrMap_def exP_def)
  have r1: "checkAndExtractFieldType (fm_from exBY) exP = Inr TInt"
    by (simp add: checkAndExtractFieldType_def exBY_def exP_def)
  have r2: "checkAndExtractFieldType (fm_to exBY) exS = Inr TInt"
    by (simp add: checkAndExtractFieldType_def exBY_def exS_def)
  have r3: "checkAssignable TInt TInt = assignableTypeMust"
    by (simp add: checkAssignable_def assignableTo_def)
  have h4: "\<forall>m\<in>set [exBY]. \<exists>pf sf.
           checkAndExtractFieldType (fm_from m) exP = Inr pf
           \<and> checkAndExtractFieldType (fm_to m) exS = Inr sf
           \<and> checkAssignable pf sf = assignableTypeMust"
    using r1 r2 r3 by simp
  from validateFieldMapping_all_always_nil [of "[exBY]" exS exP checkAssignable,
      OF h1 disjI2 [OF h2] disjI2 [OF h3] h4] h1 h2 h3 r1 r2 r3
  show ?thesis by simp
qed

text \<open>
  C3 as the spec states it fails: at the same input, where the one pairing is always
  assignable, the handler pair returned is nil, not a pair of pass-through functions.
\<close>

theorem validateFieldMapping_all_always_counterexample:
  "checkAndExtractFieldType (fm_from exBY) exP = Inr TInt
   \<and> checkAndExtractFieldType (fm_to exBY) exS = Inr TInt
   \<and> checkAssignable TInt TInt = assignableTypeMust
   \<and> validateFieldMapping checkAssignable exP exS [exBY] = Inr None"
  by (simp add: validate_defs example_defs)

text \<open>
  C4 fails on the code. From \<^verbatim>\<open>P{A any; B int}\<close> to \<^verbatim>\<open>S{X string; Y int}\<close> with the
  mappings A to X (conditionally assignable) and B to Y (always assignable), validation
  succeeds with one guard, for the field \<^verbatim>\<open>X\<close> of type string. The guard's closure reads
  the variable \<^verbatim>\<open>successorFieldType\<close>, which the last iteration of the loop left at the
  type of \<^verbatim>\<open>Y\<close>, int. So \<^verbatim>\<open>invoke\<close> rejects the string \<^verbatim>\<open>"hello"\<close> for \<^verbatim>\<open>X\<close>,
  which is assignable to the field's type, and accepts the int 5, which is not.
\<close>

theorem validateFieldMapping_guard_reads_last_field_type:
  "validateFieldMapping checkAssignable exP exS [exAX, exBY] = Inr (Some exHandler)
   \<and> fieldCheckers exHandler = [''X'']
   \<and> checkAndExtractFieldType ''X'' exS = Inr TString
   \<and> assignableTo TString TString
   \<and> invoke exHandler [(''X'', VString ''hello'')]
       = Returns None (Some (RuntimeCheckFailed TString TInt))
   \<and> \<not> assignableTo TInt TString
   \<and> invoke exHandler [(''X'', VInt 5)] = Returns (Some [(''X'', VInt 5)]) None"
  by (simp add: validate_defs example_defs exHandler_def invoke_def fieldChecker_def)

section \<open>Field extraction\<close>

text \<open>
  C7 fails on the code. A \<^verbatim>\<open>Box{F: nil}\<close>, whose field \<^verbatim>\<open>F\<close> of type \<^verbatim>\<open>any\<close>
  holds the nil interface: \<^verbatim>\<open>takeOne\<close> succeeds and extracts nil. Injecting the
  extracted value into the field \<^verbatim>\<open>F\<close> of a fresh \<^verbatim>\<open>Box\<close> does not succeed:
  \<^verbatim>\<open>reflect.ValueOf(nil)\<close> is the zero Value, and \<^verbatim>\<open>toSet.Type()\<close> in
  \<^verbatim>\<open>checkAndExtractToField\<close> panics on it.
\<close>

theorem takeOne_assignOne_nil_interface_field:
  "typeOf (exBox VNil) = Some exBoxT
   \<and> takeOne (exBox VNil) ''F'' = Returns VNil None
   \<and> zeroValue exBoxT = exBox VNil
   \<and> assignOne exBoxT (zeroValue exBoxT) VNil ''F'' = Panics"
  by (simp add: extract_defs inject_defs example_defs)

text \<open>
  C9 fails on the code. For a scalar, \<^verbatim>\<open>takeOne\<close> with a field name returns the
  unsupported-shape error. For a pointer to a scalar, the case Ptr of the switch takes
  \<^verbatim>\<open>Elem()\<close> and falls through to \<^verbatim>\<open>checkAndExtractFromField\<close>, where
  \<^verbatim>\<open>FieldByName\<close> panics on a Value that is not a struct. For the nil interface, the
  default branch panics while it formats \<^verbatim>\<open>inputValue.Type()\<close> into the message.
\<close>

theorem takeOne_pointer_to_scalar_panics:
  "takeOne (VInt 0) ''F'' = Returns reflectValueZero (Some (FromUnsupportedShape TInt))
   \<and> takeOne (VPtr TInt (Some (VInt 0))) ''F'' = Panics
   \<and> takeOne VNil ''F'' = Panics"
  by (simp add: extract_defs)

section \<open>Value conversion\<close>




lemma update_fresh_key: "k \<notin> fst ` set al \<Longrightarrow> AList.update k v al = al @ [(k, v)]"
  by (induction al) auto

lemma groupValues_distinct:
  "distinct (map fst acc @ map fst ms) \<Longrightarrow>
   groupValues ms acc = acc @ map (\<lambda>(k, v). (k, [v])) ms"
proof (induction ms arbitrary: acc)
  case Nil
  then show ?case by simp
next
  case (Cons a ms)
  obtain k v where a: "a = (k, v)" by (cases a)
  from Cons.prems a have fresh: "k \<notin> fst ` set acc" by auto
  then have none: "map_of acc k = None" by (simp add: map_of_eq_None_iff)
  have d: "distinct (map fst (acc @ [(k, [v])]) @ map fst ms)"
    using Cons.prems a by auto
  show ?case
    using Cons.IH [OF d] a none fresh by (simp add: update_fresh_key)
qed

lemma assignValues_single_any_merge:
  "assignValues mv T t (map (\<lambda>(k, v). (k, [v])) ms)
   = assignValues mv' T t (map (\<lambda>(k, v). (k, [v])) ms)"
  by (induction ms arbitrary: t) (auto split: outcome.splits option.splits)

lemma assignValues_single_no_error:
  "assignValues mv T t (map (\<lambda>(k, v). (k, [v])) ms) \<noteq> Returns t' (Some e)"
  by (induction ms arbitrary: t) (auto split: outcome.splits option.splits)

text \<open>
  C10 (the merge branch is dead): the input of \<^verbatim>\<open>convertTo\<close> is a Go map, so its keys
  are distinct. Then every field name of \<^verbatim>\<open>field2Values\<close> has exactly one value,
  \<^verbatim>\<open>convertTo\<close> never returns the merge-failure error, and its outcome is the same for
  every \<^verbatim>\<open>mergeValues\<close>: the function is never called.
\<close>

theorem convertTo_never_merges:
  assumes "distinct (map fst mappings)"
  shows "list_all (\<lambda>(fieldName, vals). length vals = 1) (groupValues mappings [])
       \<and> (\<forall>t fieldName. convertTo mv newInstance T mappings
              \<noteq> Returns t (Some (MergeFailed fieldName)))
       \<and> convertTo mv newInstance T mappings = convertTo mv' newInstance T mappings"
proof -
  have g: "groupValues mappings [] = map (\<lambda>(k, v). (k, [v])) mappings"
    using groupValues_distinct [of "[]" mappings] assms by simp
  have "list_all (\<lambda>(fieldName, vals). length vals = 1) (groupValues mappings [])"
    unfolding g by (induction mappings) auto
  moreover have "\<forall>t fieldName. convertTo mv newInstance T mappings
       \<noteq> Returns t (Some (MergeFailed fieldName))"
    unfolding convertTo_def g
    using assignValues_single_no_error [of mv T _ mappings]
    by (auto split: option.splits)
  moreover have "convertTo mv newInstance T mappings = convertTo mv' newInstance T mappings"
    unfolding convertTo_def g
    using assignValues_single_any_merge [of mv T _ mappings mv']
    by (auto split: option.splits)
  ultimately show ?thesis by blast
qed

text \<open>
  The theorem at the mapping of \<^verbatim>\<open>X\<close> to \<^verbatim>\<open>"a"\<close> and \<^verbatim>\<open>Y\<close> to 7, for the type
  \<^verbatim>\<open>S\<close>, with a \<^verbatim>\<open>mergeValues\<close> that always fails and one that keeps the first
  value: the struct is built either way.
\<close>

theorem convertTo_never_merges_witness:
  "distinct (map fst [(''X'', VString ''a''), (''Y'', VInt 7)])
   \<and> list_all (\<lambda>(fieldName, vals). length vals = 1)
       (groupValues [(''X'', VString ''a''), (''Y'', VInt 7)] [])
   \<and> convertTo noMergePolicy NewInstance exS [(''X'', VString ''a''), (''Y'', VInt 7)]
       = convertTo Inr_hd NewInstance exS [(''X'', VString ''a''), (''Y'', VInt 7)]
   \<and> convertTo noMergePolicy NewInstance exS [(''X'', VString ''a''), (''Y'', VInt 7)]
       = Returns (exSval ''a'' 7) None"
proof -
  have h: "distinct (map fst [(''X'', VString ''a''), (''Y'', VInt 7)])" by simp
  have r: "convertTo noMergePolicy NewInstance exS [(''X'', VString ''a''), (''Y'', VInt 7)]
       = Returns (exSval ''a'' 7) None"
    by (simp add: convertTo_def NewInstance_def inject_defs example_defs)
  from convertTo_never_merges [OF h, of noMergePolicy NewInstance exS Inr_hd] h r
  show ?thesis by simp
qed

section \<open>Workflow edge assembly\<close>
















section \<open>What extraction and injection do outside the failing cases\<close>

lemma lookupField_name:
  "lookupField name fvs = Some ((n, ex, t), v) \<Longrightarrow> n = name"
  by (induction name fvs rule: lookupField.induct) (auto split: if_splits)

lemma lookupField_same_decls:
  "map fst fvs' = map fst fvs \<Longrightarrow> lookupField name fvs = Some (d, v)
   \<Longrightarrow> \<exists>v'. lookupField name fvs' = Some (d, v')"
proof (induction name fvs arbitrary: fvs' rule: lookupField.induct)
  case (1 name)
  then show ?case by simp
next
  case (2 name n ex t v0 fvs)
  from "2.prems"(1) obtain v1 rest where f: "fvs' = ((n, ex, t), v1) # rest" "map fst rest = map fst fvs"
    by (cases fvs') auto
  show ?case
  proof (cases "n = name")
    case True
    with "2.prems"(2) f show ?thesis by auto
  next
    case False
    with "2.IH" [OF False f(2)] "2.prems"(2) f show ?thesis by simp
  qed
qed

lemma lookupField_setFirst:
  "lookupField name fvs = Some (d, v) \<Longrightarrow> lookupField name (setFirst name x fvs) = Some (d, x)"
  by (induction name fvs rule: lookupField.induct) (auto split: if_splits)

lemma lookupField_conform:
  "fieldsConform fvs \<Longrightarrow> lookupField name fvs = Some ((n, ex, t), v) \<Longrightarrow> typeOf v = Some tv
   \<Longrightarrow> assignableTo tv t"
  by (induction name fvs rule: lookupField.induct) (auto simp: fieldsConform_def split: if_splits)

text \<open>
  Beside C7: for a well-typed struct the round trip does hold whenever the extracted
  value is not the nil interface. Extraction of the field \<open>f\<close> followed by injection
  into any destination of the same struct type succeeds, and extracting \<open>f\<close> from the
  result gives the extracted value again.
\<close>

lemma takeOne_assignOne_struct_roundtrip:
  assumes take: "takeOne (VStruct n ms fvs) f = Returns x None"
    and f: "f \<noteq> []"
    and conform: "fieldsConform fvs"
    and nonnil: "x \<noteq> VNil"
    and same: "map fst fvs' = map fst fvs"
  shows "assignOne (TStruct n ms (map fst fvs)) (VStruct n ms fvs') x f
           = Returns (VStruct n ms (setFirst f x fvs')) None
       \<and> takeOne (VStruct n ms (setFirst f x fvs')) f = Returns x None"
proof -
  from take f obtain t where l: "lookupField f fvs = Some ((f, True, t), x)"
    by (auto simp: extract_defs split: option.splits if_splits dest: lookupField_name)
  from nonnil obtain tx where tx: "typeOf x = Some tx" by (cases x) auto
  from lookupField_conform [OF conform l tx] have a: "assignableTo tx t" .
  from lookupField_same_decls [OF same l] obtain x' where
    l': "lookupField f fvs' = Some ((f, True, t), x')" by blast
  have k: "Kind (RVal (TStruct n ms (map fst fvs)) (VStruct n ms fvs') False) \<noteq> KPtr"
    by simp
  have "assignOne (TStruct n ms (map fst fvs)) (VStruct n ms fvs') x f
           = Returns (VStruct n ms (setFirst f x fvs')) None"
    using f l' tx a k
    by (simp add: assignOne_def ValueOf_def checkAndExtractToField_def derefAll.simps)
  moreover have "takeOne (VStruct n ms (setFirst f x fvs')) f = Returns x None"
    using f lookupField_setFirst [OF l', of x] by (simp add: extract_defs)
  ultimately show ?thesis by simp
qed

text \<open>
  Beside C9: for every value that is not nil and whose kind is neither Map, Ptr nor Struct
  (a scalar, a slice), \<^verbatim>\<open>takeOne\<close> with a field name does return the unsupported-shape
  error.
\<close>

lemma takeOne_unsupported_shape:
  assumes "typeOf input = Some t" and "kindOf t \<notin> {KMap, KPtr, KStruct}" and "fromF \<noteq> []"
  shows "takeOne input fromF = Returns reflectValueZero (Some (FromUnsupportedShape t))"
  using assms by (cases "kindOf t") (simp_all add: takeOne_def ValueOf_def)

end
